theory Spec2Isabelle
  imports Main
begin

section \<open>The OIDC extractor of kuberos (\<^verbatim>\<open>extractor/oidc.go\<close>)\<close>

text \<open>
  The extractor is a linear pipeline over two collaborators that live outside the
  repository: the OAuth2 client (\<^verbatim>\<open>cfg.Exchange\<close>, \<^verbatim>\<open>token.Extra\<close>) and the OIDC
  verifier (\<^verbatim>\<open>o.v.Verify\<close>, \<^verbatim>\<open>idt.Claims\<close>). The two network calls are parameters of
  the model (record \<open>env\<close>): every theorem quantifies over what they answer. The
  calls the code makes are appended to a log, so that which call is made, in which
  order and with which context is part of the result.
\<close>

subsection \<open>Values\<close>

text \<open>
  A decoded JSON value. The same type stands for the dynamic values that
  \<^verbatim>\<open>token.Extra\<close> returns as \<^verbatim>\<open>interface{}\<close>: \<open>JNull\<close> is the nil interface,
  \<open>JString\<close> a Go \<^verbatim>\<open>string\<close>, and so on. A number is kept as its literal.
\<close>

datatype json =
    JNull
  | JBool bool
  | JNumber string
  | JString string
  | JArray "json list"
  | JObject "(string \<times> json) list"

text \<open>
  Errors. \<open>ErrMissingIDToken\<close> is the package variable of line 16; \<open>Wrap err msg\<close>
  is \<^verbatim>\<open>errors.Wrap(err, msg)\<close> on a non-nil \<^verbatim>\<open>err\<close>; \<open>External\<close> is any error of a
  collaborator; the remaining two are the errors of \<^verbatim>\<open>idt.Claims\<close>.
\<close>

datatype error =
    ErrMissingIDToken
  | External string
  | ClaimsNotSet
  | UnmarshalTypeError string string
  | Wrap error string

text \<open>A \<^verbatim>\<open>*http.Client\<close>: nil, \<^verbatim>\<open>http.DefaultClient\<close>, or another client.\<close>

datatype http_client = NilClient | DefaultClient | Client nat

text \<open>A \<^verbatim>\<open>*oidc.IDTokenVerifier\<close>, opaque to this package.\<close>

datatype verifier = Verifier nat

text \<open>
  A \<^verbatim>\<open>context.Context\<close>: the caller's context (deadline, cancellation, other
  values), and the value stored under the key \<^verbatim>\<open>oauth2.HTTPClient\<close>, if any.
\<close>

record Context =
  ctx_base :: nat
  ctx_HTTPClient :: "http_client option"

text \<open>\<^verbatim>\<open>oidc.ClientContext(ctx, client)\<close> is \<^verbatim>\<open>context.WithValue(ctx, oauth2.HTTPClient, client)\<close>.\<close>

definition ClientContext :: "Context \<Rightarrow> http_client \<Rightarrow> Context" where
  "ClientContext ctx client = ctx\<lparr>ctx_HTTPClient := Some client\<rparr>"

text \<open>The fields of \<^verbatim>\<open>oauth2.Config\<close> that the code reads, and the rest of it.\<close>

record Config =
  cfg_ClientID :: string
  cfg_ClientSecret :: string
  cfg_Endpoint :: string

text \<open>An \<^verbatim>\<open>oauth2.Token\<close>: \<open>tok_Extra t key\<close> is \<^verbatim>\<open>t.Extra(key)\<close>.\<close>

record Token =
  tok_AccessToken :: string
  tok_RefreshToken :: string
  tok_Extra :: "string \<Rightarrow> json"

text \<open>
  A verified \<^verbatim>\<open>oidc.IDToken\<close>: its issuer, and the raw claims that \<^verbatim>\<open>Claims\<close>
  decodes (\<open>None\<close> is a nil byte slice).
\<close>

record oidc_IDToken =
  Issuer :: string
  claims :: "json option"

definition tokenFieldIDToken :: string where
  "tokenFieldIDToken = ''id_token''"

record OIDCAuthenticationParams =
  Username :: string
  ClientID :: string
  ClientSecret :: string
  IDToken :: string
  RefreshToken :: string
  IssuerURL :: string

record oidcExtractor =
  oe_v :: verifier
  oe_h :: http_client

subsection \<open>The collaborators\<close>

datatype io_event =
    ExchangeCall Config Context string
  | VerifyCall verifier Context string

text \<open>
  \<open>Exchange env cfg ctx code\<close> is \<^verbatim>\<open>cfg.Exchange(ctx, code)\<close> and
  \<open>Verify env v ctx raw\<close> is \<^verbatim>\<open>v.Verify(ctx, raw)\<close>; \<open>Inl\<close> is a non-nil error.
  \<open>equalFold env tag key\<close> is the case-insensitive comparison that
  \<^verbatim>\<open>encoding/json\<close> falls back to when no field is tagged with exactly the key.
\<close>

record env =
  Exchange :: "Config \<Rightarrow> Context \<Rightarrow> string \<Rightarrow> error + Token"
  Verify :: "verifier \<Rightarrow> Context \<Rightarrow> string \<Rightarrow> error + oidc_IDToken"
  equalFold :: "string \<Rightarrow> string \<Rightarrow> bool"

subsection \<open>Decoding the claims into the parameters\<close>

text \<open>
  \<^verbatim>\<open>idt.Claims(params)\<close> is \<^verbatim>\<open>json.Unmarshal(idt.claims, params)\<close>. The fields of
  \<^verbatim>\<open>OIDCAuthenticationParams\<close> and their \<^verbatim>\<open>json\<close> tags are those of lines 20 to 27,
  in the order of declaration.
\<close>

datatype field = FUsername | FClientID | FClientSecret | FIDToken | FRefreshToken | FIssuerURL

definition fields :: "(field \<times> string) list" where
  "fields =
    [(FUsername, ''email''),
     (FClientID, ''clientID''),
     (FClientSecret, ''clientSecret''),
     (FIDToken, ''idToken''),
     (FRefreshToken, ''refreshToken''),
     (FIssuerURL, ''issuer'')]"

fun tag_of :: "field \<Rightarrow> string" where
  "tag_of FUsername = ''email''"
| "tag_of FClientID = ''clientID''"
| "tag_of FClientSecret = ''clientSecret''"
| "tag_of FIDToken = ''idToken''"
| "tag_of FRefreshToken = ''refreshToken''"
| "tag_of FIssuerURL = ''issuer''"

fun get_field :: "field \<Rightarrow> OIDCAuthenticationParams \<Rightarrow> string" where
  "get_field FUsername p = Username p"
| "get_field FClientID p = ClientID p"
| "get_field FClientSecret p = ClientSecret p"
| "get_field FIDToken p = IDToken p"
| "get_field FRefreshToken p = RefreshToken p"
| "get_field FIssuerURL p = IssuerURL p"

fun set_field :: "field \<Rightarrow> string \<Rightarrow> OIDCAuthenticationParams \<Rightarrow> OIDCAuthenticationParams" where
  "set_field FUsername s p = p\<lparr>Username := s\<rparr>"
| "set_field FClientID s p = p\<lparr>ClientID := s\<rparr>"
| "set_field FClientSecret s p = p\<lparr>ClientSecret := s\<rparr>"
| "set_field FIDToken s p = p\<lparr>IDToken := s\<rparr>"
| "set_field FRefreshToken s p = p\<lparr>RefreshToken := s\<rparr>"
| "set_field FIssuerURL s p = p\<lparr>IssuerURL := s\<rparr>"

text \<open>
  The field an object key is stored in: the field tagged with exactly the key,
  otherwise the first field, in declaration order, whose tag equals the key up to
  case; a key that matches no field is skipped.
\<close>

definition find_field :: "(string \<Rightarrow> string \<Rightarrow> bool) \<Rightarrow> string \<Rightarrow> field option" where
  "find_field eqf key =
    (case find (\<lambda>(f, tag). tag = key) fields of
       Some (f, tag) \<Rightarrow> Some f
     | None \<Rightarrow>
        (case find (\<lambda>(f, tag). eqf tag key) fields of
           Some (f, tag) \<Rightarrow> Some f
         | None \<Rightarrow> None))"

fun kind :: "json \<Rightarrow> string" where
  "kind JNull = ''null''"
| "kind (JBool b) = ''bool''"
| "kind (JNumber n) = ''number''"
| "kind (JString s) = ''string''"
| "kind (JArray xs) = ''array''"
| "kind (JObject kvs) = ''object''"

text \<open>\<^verbatim>\<open>saveError\<close> keeps the first error and decoding goes on.\<close>

fun saveError :: "error option \<Rightarrow> error \<Rightarrow> error option" where
  "saveError None e = Some e"
| "saveError (Some e0) e = Some e0"

text \<open>
  One member of the object: every field is a Go \<^verbatim>\<open>string\<close>, so a JSON string is
  stored, \<^verbatim>\<open>null\<close> leaves the field as it is, and any other value is a type error.
\<close>

fun decode_member ::
  "(string \<Rightarrow> string \<Rightarrow> bool) \<Rightarrow> string \<times> json \<Rightarrow>
   OIDCAuthenticationParams \<times> error option \<Rightarrow> OIDCAuthenticationParams \<times> error option" where
  "decode_member eqf (key, val) (p, saved) =
    (case find_field eqf key of
       None \<Rightarrow> (p, saved)
     | Some f \<Rightarrow>
        (case val of
           JString s \<Rightarrow> (set_field f s p, saved)
         | JNull \<Rightarrow> (p, saved)
         | _ \<Rightarrow> (p, saveError saved (UnmarshalTypeError (kind val) (tag_of f)))))"

fun Unmarshal ::
  "(string \<Rightarrow> string \<Rightarrow> bool) \<Rightarrow> json \<Rightarrow> OIDCAuthenticationParams \<Rightarrow>
   OIDCAuthenticationParams \<times> error option" where
  "Unmarshal eqf (JObject kvs) p = fold (decode_member eqf) kvs (p, None)"
| "Unmarshal eqf JNull p = (p, None)"
| "Unmarshal eqf val p = (p, Some (UnmarshalTypeError (kind val) []))"

definition Claims ::
  "(string \<Rightarrow> string \<Rightarrow> bool) \<Rightarrow> oidc_IDToken \<Rightarrow> OIDCAuthenticationParams \<Rightarrow>
   OIDCAuthenticationParams \<times> error option" where
  "Claims eqf idt p =
    (case claims idt of
       None \<Rightarrow> (p, Some ClaimsNotSet)
     | Some raw \<Rightarrow> Unmarshal eqf raw p)"

subsection \<open>Construction\<close>

text \<open>
  An \<^verbatim>\<open>Option\<close> is a function on the extractor under construction that may fail;
  it may do anything, so it also takes and returns the log of network calls.
\<close>

type_synonym Option =
  "oidcExtractor \<Rightarrow> io_event list \<Rightarrow> (oidcExtractor \<times> io_event list) \<times> error option"

definition HTTPClient :: "http_client \<Rightarrow> Option" where
  "HTTPClient hc = (\<lambda>oe log. ((oe\<lparr>oe_h := hc\<rparr>, log), None))"

text \<open>The loop of \<^verbatim>\<open>NewOIDC\<close> over the options, from the extractor built so far.\<close>

fun apply_options ::
  "Option list \<Rightarrow> oidcExtractor \<Rightarrow> io_event list \<Rightarrow>
   (oidcExtractor option \<times> error option) \<times> io_event list" where
  "apply_options [] oe log = ((Some oe, None), log)"
| "apply_options (opt # oo) oe log =
    (case opt oe log of
       ((oe', log'), Some err) \<Rightarrow> ((None, Some (Wrap err ''cannot apply OIDC option'')), log')
     | ((oe', log'), None) \<Rightarrow> apply_options oo oe' log')"

definition NewOIDC ::
  "verifier \<Rightarrow> Option list \<Rightarrow> io_event list \<Rightarrow>
   (oidcExtractor option \<times> error option) \<times> io_event list" where
  "NewOIDC vf oo log = apply_options oo \<lparr>oe_v = vf, oe_h = DefaultClient\<rparr> log"

subsection \<open>Process\<close>

definition Process ::
  "env \<Rightarrow> oidcExtractor \<Rightarrow> Context \<Rightarrow> Config \<Rightarrow> string \<Rightarrow> io_event list \<Rightarrow>
   (OIDCAuthenticationParams option \<times> error option) \<times> io_event list" where
  "Process env oe ctx cfg code log =
    (let octx = ClientContext ctx (oe_h oe);
         log1 = log @ [ExchangeCall cfg octx code]
     in case Exchange env cfg octx code of
          Inl err \<Rightarrow> ((None, Some (Wrap err ''cannot exchange code for token'')), log1)
        | Inr token \<Rightarrow>
           (case tok_Extra token tokenFieldIDToken of
              JString raw \<Rightarrow>
               (let log2 = log1 @ [VerifyCall (oe_v oe) ctx raw]
                in case Verify env (oe_v oe) ctx raw of
                     Inl err \<Rightarrow> ((None, Some (Wrap err ''cannot verify ID token'')), log2)
                   | Inr idt \<Rightarrow>
                      (let params = \<lparr>Username = [],
                                     ClientID = cfg_ClientID cfg,
                                     ClientSecret = cfg_ClientSecret cfg,
                                     IDToken = raw,
                                     RefreshToken = tok_RefreshToken token,
                                     IssuerURL = Issuer idt\<rparr>
                       in case Claims (equalFold env) idt params of
                            (params', Some err) \<Rightarrow>
                              ((None, Some (Wrap err ''cannot extract claims from ID token'')), log2)
                          | (params', None) \<Rightarrow> ((Some params', None), log2)))
            | _ \<Rightarrow> ((None, Some ErrMissingIDToken), log1)))"

subsection \<open>What the claims of a token are decoded into\<close>

text \<open>The members of the claims object, in the order of the payload.\<close>

definition claim_members :: "oidc_IDToken \<Rightarrow> (string \<times> json) list" where
  "claim_members idt = (case claims idt of Some (JObject kvs) \<Rightarrow> kvs | _ \<Rightarrow> [])"

text \<open>The token has a claim whose name selects field \<open>f\<close> (exactly, or up to case).\<close>

definition has_claim :: "(string \<Rightarrow> string \<Rightarrow> bool) \<Rightarrow> field \<Rightarrow> oidc_IDToken \<Rightarrow> bool" where
  "has_claim eqf f idt =
    list_ex (\<lambda>(key, val). find_field eqf key = Some f) (claim_members idt)"

text \<open>The string claims of the token whose name selects field \<open>f\<close>, in payload order.\<close>

fun member_string ::
  "(string \<Rightarrow> string \<Rightarrow> bool) \<Rightarrow> field \<Rightarrow> string \<times> json \<Rightarrow> string list" where
  "member_string eqf f (key, JString s) = (if find_field eqf key = Some f then [s] else [])"
| "member_string eqf f (key, val) = []"

definition claim_strings ::
  "(string \<Rightarrow> string \<Rightarrow> bool) \<Rightarrow> field \<Rightarrow> oidc_IDToken \<Rightarrow> string list" where
  "claim_strings eqf f idt = concat (map (member_string eqf f) (claim_members idt))"

text \<open>The events that \<open>Process\<close> appended to a log of length \<open>n\<close>.\<close>

definition new_events :: "nat \<Rightarrow> 'a \<times> io_event list \<Rightarrow> io_event list" where
  "new_events n r = drop n (snd r)"

fun is_VerifyCall :: "io_event \<Rightarrow> bool" where
  "is_VerifyCall (VerifyCall vf ctx raw) = True"
| "is_VerifyCall (ExchangeCall cfg ctx code) = False"

subsection \<open>Concrete collaborators and inputs\<close>

text \<open>Equality of ASCII strings up to the case of letters.\<close>

definition ascii_upper :: "char \<Rightarrow> char" where
  "ascii_upper c =
    (case map_of (zip ''abcdefghijklmnopqrstuvwxyz'' ''ABCDEFGHIJKLMNOPQRSTUVWXYZ'') c of
       Some u \<Rightarrow> u
     | None \<Rightarrow> c)"

definition asciiEqualFold :: "string \<Rightarrow> string \<Rightarrow> bool" where
  "asciiEqualFold tag key = (map ascii_upper tag = map ascii_upper key)"

text \<open>
  The scenario of the specification: client \<open>abc\<close> with secret \<open>xyz\<close> redeems
  \<open>auth-code-1\<close>; the provider answers with refresh token \<open>r1\<close>.
\<close>

definition example_cfg :: Config where
  "example_cfg =
    \<lparr>cfg_ClientID = ''abc'', cfg_ClientSecret = ''xyz'',
     cfg_Endpoint = ''https://issuer.example/token''\<rparr>"

definition example_token :: "json \<Rightarrow> Token" where
  "example_token idv =
    \<lparr>tok_AccessToken = ''a1'', tok_RefreshToken = ''r1'',
     tok_Extra = (\<lambda>key. if key = ''id_token'' then idv else JNull)\<rparr>"

definition example_idtoken :: "(string \<times> json) list \<Rightarrow> oidc_IDToken" where
  "example_idtoken kvs = \<lparr>Issuer = ''https://issuer.example'', claims = Some (JObject kvs)\<rparr>"

text \<open>Collaborators that answer every call with the given results.\<close>

definition example_env :: "error + Token \<Rightarrow> error + oidc_IDToken \<Rightarrow> env" where
  "example_env xr vr =
    \<lparr>Exchange = (\<lambda>cfg ctx code. xr), Verify = (\<lambda>vf ctx raw. vr),
     equalFold = asciiEqualFold\<rparr>"

definition example_extractor :: oidcExtractor where
  "example_extractor = \<lparr>oe_v = Verifier 1, oe_h = Client 7\<rparr>"

definition example_ctx :: Context where
  "example_ctx = \<lparr>ctx_base = 0, ctx_HTTPClient = None\<rparr>"


text \<open>An option that fails.\<close>

definition failing_option :: Option where
  "failing_option = (\<lambda>oe log. ((oe, log), Some (External ''unsupported'')))"

section \<open>Properties\<close>

subsection \<open>The four ways through \<open>Process\<close>\<close>

lemma Process_exchange_error:
  assumes "Exchange env cfg (ClientContext ctx (oe_h oe)) code = Inl err"
  shows "Process env oe ctx cfg code log =
    ((None, Some (Wrap err ''cannot exchange code for token'')),
     log @ [ExchangeCall cfg (ClientContext ctx (oe_h oe)) code])"
  using assms by (simp add: Process_def)

lemma Process_missing:
  assumes "Exchange env cfg (ClientContext ctx (oe_h oe)) code = Inr token"
    and "\<forall>s. tok_Extra token tokenFieldIDToken \<noteq> JString s"
  shows "Process env oe ctx cfg code log =
    ((None, Some ErrMissingIDToken),
     log @ [ExchangeCall cfg (ClientContext ctx (oe_h oe)) code])"
  using assms by (cases "tok_Extra token tokenFieldIDToken") (simp_all add: Process_def)

lemma Process_verify_error:
  assumes "Exchange env cfg (ClientContext ctx (oe_h oe)) code = Inr token"
    and "tok_Extra token tokenFieldIDToken = JString raw"
    and "Verify env (oe_v oe) ctx raw = Inl err"
  shows "Process env oe ctx cfg code log =
    ((None, Some (Wrap err ''cannot verify ID token'')),
     log @ [ExchangeCall cfg (ClientContext ctx (oe_h oe)) code, VerifyCall (oe_v oe) ctx raw])"
  using assms by (simp add: Process_def)

lemma Process_verified:
  assumes "Exchange env cfg (ClientContext ctx (oe_h oe)) code = Inr token"
    and "tok_Extra token tokenFieldIDToken = JString raw"
    and "Verify env (oe_v oe) ctx raw = Inr idt"
  shows "Process env oe ctx cfg code log =
    (case Claims (equalFold env) idt
            \<lparr>Username = [], ClientID = cfg_ClientID cfg, ClientSecret = cfg_ClientSecret cfg,
             IDToken = raw, RefreshToken = tok_RefreshToken token, IssuerURL = Issuer idt\<rparr> of
       (params', Some err) \<Rightarrow> (None, Some (Wrap err ''cannot extract claims from ID token''))
     | (params', None) \<Rightarrow> (Some params', None),
     log @ [ExchangeCall cfg (ClientContext ctx (oe_h oe)) code, VerifyCall (oe_v oe) ctx raw])"
  using assms by (simp add: Process_def split: prod.splits option.splits)

subsection \<open>Decoding, field by field\<close>

lemma get_set_field: "get_field f (set_field g s p) = (if f = g then s else get_field f p)"
  by (cases f; cases g) simp_all

lemma decode_member_field:
  "get_field f (fst (decode_member eqf kv (p, sv))) =
    (if member_string eqf f kv = [] then get_field f p else last (member_string eqf f kv))"
proof -
  obtain key val where kv: "kv = (key, val)" by (cases kv)
  show ?thesis
    unfolding kv by (cases val) (auto simp: get_set_field split: option.splits)
qed

lemma fold_decode_field:
  "get_field f (fst (fold (decode_member eqf) kvs (p, sv))) =
    (if concat (map (member_string eqf f) kvs) = [] then get_field f p
     else last (concat (map (member_string eqf f) kvs)))"
proof (induction kvs rule: rev_induct)
  case Nil
  show ?case by simp
next
  case (snoc kv kvs)
  obtain q sv' where st: "fold (decode_member eqf) kvs (p, sv) = (q, sv')"
    by (cases "fold (decode_member eqf) kvs (p, sv)")
  from snoc st have ih: "get_field f q =
    (if concat (map (member_string eqf f) kvs) = [] then get_field f p
     else last (concat (map (member_string eqf f) kvs)))" by simp
  show ?case
    using ih by (simp add: st decode_member_field)
qed

text \<open>Whether decoding fails does not depend on the record decoded into.\<close>

lemma decode_member_error:
  "snd (decode_member eqf kv (p, sv)) = snd (decode_member eqf kv (q, sv))"
  by (cases kv) (simp split: option.splits json.splits)

lemma fold_decode_error:
  "snd (fold (decode_member eqf) kvs (p, sv)) = snd (fold (decode_member eqf) kvs (q, sv))"
proof (induction kvs arbitrary: p q sv)
  case Nil
  show ?case by simp
next
  case (Cons kv kvs)
  obtain p' s1 where a: "decode_member eqf kv (p, sv) = (p', s1)"
    by (cases "decode_member eqf kv (p, sv)")
  obtain q' s2 where b: "decode_member eqf kv (q, sv) = (q', s2)"
    by (cases "decode_member eqf kv (q, sv)")
  from decode_member_error [of eqf kv p sv q] a b have "s1 = s2" by simp
  with a b Cons.IH [of p' s2 q'] show ?case by simp
qed

lemma Claims_error_indep: "snd (Claims eqf idt p) = snd (Claims eqf idt q)"
proof (cases "claims idt")
  case None
  then show ?thesis by (simp add: Claims_def)
next
  case (Some raw)
  then show ?thesis
    by (cases raw) (simp_all add: Claims_def fold_decode_error [of eqf _ p None q])
qed

lemma Claims_field:
  "get_field f (fst (Claims eqf idt p)) =
    (if claim_strings eqf f idt = [] then get_field f p else last (claim_strings eqf f idt))"
proof (cases "claims idt")
  case None
  then show ?thesis by (simp add: Claims_def claim_strings_def claim_members_def)
next
  case (Some raw)
  then show ?thesis
    by (cases raw)
       (simp_all add: Claims_def claim_strings_def claim_members_def fold_decode_field)
qed

lemma member_string_no_claim:
  "find_field eqf (fst kv) \<noteq> Some f \<Longrightarrow> member_string eqf f kv = []"
  by (cases "(eqf, f, kv)" rule: member_string.cases) simp_all

lemma no_claim_strings: "\<not> has_claim eqf f idt \<Longrightarrow> claim_strings eqf f idt = []"
  by (auto simp: has_claim_def claim_strings_def list_ex_iff intro!: member_string_no_claim)

lemma Claims_keeps:
  "\<not> has_claim eqf f idt \<Longrightarrow> get_field f (fst (Claims eqf idt p)) = get_field f p"
  by (simp add: Claims_field no_claim_strings)

subsection \<open>The successful way through \<open>Process\<close>\<close>

lemma Process_success:
  assumes "Exchange env cfg (ClientContext ctx (oe_h oe)) code = Inr token"
    and "tok_Extra token tokenFieldIDToken = JString raw"
    and "Verify env (oe_v oe) ctx raw = Inr idt"
    and "snd (Claims (equalFold env) idt p) = None"
  shows "fst (Process env oe ctx cfg code log) =
    (Some (fst (Claims (equalFold env) idt
        \<lparr>Username = [], ClientID = cfg_ClientID cfg, ClientSecret = cfg_ClientSecret cfg,
         IDToken = raw, RefreshToken = tok_RefreshToken token, IssuerURL = Issuer idt\<rparr>)), None)"
proof -
  let ?p0 = "\<lparr>Username = [], ClientID = cfg_ClientID cfg, ClientSecret = cfg_ClientSecret cfg,
             IDToken = raw, RefreshToken = tok_RefreshToken token, IssuerURL = Issuer idt\<rparr>"
  from assms(4) have "snd (Claims (equalFold env) idt ?p0) = None"
    by (simp add: Claims_error_indep [of _ _ ?p0 p])
  then obtain p' where "Claims (equalFold env) idt ?p0 = (p', None)"
    by (cases "Claims (equalFold env) idt ?p0") simp
  with assms(1-3) show ?thesis
    by (simp add: Process_verified)
qed

subsection \<open>The loop over the options\<close>

lemma apply_options_HTTPClient:
  "apply_options (map HTTPClient hs) oe log =
    ((Some (oe\<lparr>oe_h := (if hs = [] then oe_h oe else last hs)\<rparr>), None), log)"
  by (induction hs arbitrary: oe) (simp_all add: HTTPClient_def)

lemma apply_options_error:
  "snd (fst (apply_options oo oe log)) = Some err \<Longrightarrow>
   fst (fst (apply_options oo oe log)) = None \<and>
   (\<exists>opt \<in> set oo. \<exists>oe' log' e. snd (opt oe' log') = Some e \<and>
      err = Wrap e ''cannot apply OIDC option'')"
proof (induction oo arbitrary: oe log)
  case Nil
  then show ?case by simp
next
  case (Cons opt oo)
  obtain oe1 log1 r where step: "opt oe log = ((oe1, log1), r)"
    by (cases "opt oe log") auto
  show ?case
  proof (cases r)
    case None
    with step Cons.prems have "snd (fst (apply_options oo oe1 log1)) = Some err" by simp
    from Cons.IH [OF this] step None show ?thesis by auto
  next
    case (Some e)
    with step Cons.prems have "err = Wrap e ''cannot apply OIDC option''" by simp
    moreover from step Some have "snd (opt oe log) = Some e" by simp
    then have "\<exists>oe' log' e'. snd (opt oe' log') = Some e' \<and>
        Wrap e ''cannot apply OIDC option'' = Wrap e' ''cannot apply OIDC option''"
      by blast
    moreover from step Some have "fst (fst (apply_options (opt # oo) oe log)) = None"
      by simp
    ultimately show ?thesis by simp
  qed
qed

subsection \<open>Unfolding the concrete inputs\<close>

lemmas ex_defs = example_env_def example_cfg_def example_token_def example_idtoken_def
  example_extractor_def example_ctx_def tokenFieldIDToken_def ClientContext_def

lemmas dec_defs = Claims_def find_field_def fields_def asciiEqualFold_def ascii_upper_def

subsection \<open>Failures\<close>



text \<open>
  Claim C3. For every invocation, the result of \<open>Process\<close> is nil if and only if
  its error is not nil.
\<close>

theorem Process_result_nil_iff_error:
  "fst (fst (Process env oe ctx cfg code log)) = None \<longleftrightarrow>
   snd (fst (Process env oe ctx cfg code log)) \<noteq> None"
proof (cases "Exchange env cfg (ClientContext ctx (oe_h oe)) code")
  case (Inl err)
  then show ?thesis by (simp add: Process_exchange_error)
next
  case (Inr token)
  show ?thesis
  proof (cases "\<exists>raw. tok_Extra token tokenFieldIDToken = JString raw")
    case False
    with Inr show ?thesis by (simp add: Process_missing)
  next
    case True
    then obtain raw where raw: "tok_Extra token tokenFieldIDToken = JString raw" by blast
    show ?thesis
    proof (cases "Verify env (oe_v oe) ctx raw")
      case (Inl err)
      with Inr raw show ?thesis by (simp add: Process_verify_error)
    next
      case vr: (Inr idt)
      with Inr raw show ?thesis
        by (simp add: Process_verified split: prod.splits option.splits)
    qed
  qed
qed

text \<open>
  Claim C6. When the exchange fails, \<open>Process\<close> returns a nil result and the error
  of the exchange wrapped with the exchange-stage description; the exchange is the
  only call it makes, so the verifier is never invoked.
\<close>

theorem Process_exchange_failure:
  assumes "Exchange env cfg (ClientContext ctx (oe_h oe)) code = Inl err"
  shows "fst (Process env oe ctx cfg code log) =
           (None, Some (Wrap err ''cannot exchange code for token''))
       \<and> new_events (length log) (Process env oe ctx cfg code log) =
           [ExchangeCall cfg (ClientContext ctx (oe_h oe)) code]
       \<and> filter is_VerifyCall (new_events (length log) (Process env oe ctx cfg code log)) = []"
  using assms by (simp add: Process_exchange_error new_events_def)

theorem Process_exchange_failure_witness:
  "Exchange (example_env (Inl (External ''invalid_grant'')) (Inr (example_idtoken [])))
      example_cfg (ClientContext example_ctx (oe_h example_extractor)) ''bad-code''
      = Inl (External ''invalid_grant'')
   \<and> fst (Process (example_env (Inl (External ''invalid_grant'')) (Inr (example_idtoken [])))
        example_extractor example_ctx example_cfg ''bad-code'' [])
      = (None, Some (Wrap (External ''invalid_grant'') ''cannot exchange code for token''))
   \<and> filter is_VerifyCall
        (new_events 0 (Process (example_env (Inl (External ''invalid_grant'')) (Inr (example_idtoken [])))
        example_extractor example_ctx example_cfg ''bad-code'' [])) = []"
  using Process_exchange_failure
    [of "example_env (Inl (External ''invalid_grant'')) (Inr (example_idtoken []))"
        example_cfg example_ctx example_extractor "''bad-code''" "External ''invalid_grant''" "[]"]
  by (simp add: ex_defs)

text \<open>
  Claim C7. When the exchange succeeds and the response has a string \<^verbatim>\<open>id_token\<close>
  that the verifier rejects, \<open>Process\<close> returns a nil result and the verifier's error
  wrapped with the verification-stage description.
\<close>

theorem Process_verification_failure:
  assumes "Exchange env cfg (ClientContext ctx (oe_h oe)) code = Inr token"
    and "tok_Extra token tokenFieldIDToken = JString raw"
    and "Verify env (oe_v oe) ctx raw = Inl err"
  shows "fst (Process env oe ctx cfg code log) =
           (None, Some (Wrap err ''cannot verify ID token''))"
  using assms by (simp add: Process_verify_error)

theorem Process_verification_failure_witness:
  "Exchange (example_env (Inr (example_token (JString ''expired-jwt''))) (Inl (External ''oidc: token is expired'')))
      example_cfg (ClientContext example_ctx (oe_h example_extractor)) ''auth-code-1''
      = Inr (example_token (JString ''expired-jwt''))
   \<and> tok_Extra (example_token (JString ''expired-jwt'')) tokenFieldIDToken = JString ''expired-jwt''
   \<and> Verify (example_env (Inr (example_token (JString ''expired-jwt''))) (Inl (External ''oidc: token is expired'')))
        (oe_v example_extractor) example_ctx ''expired-jwt'' = Inl (External ''oidc: token is expired'')
   \<and> fst (Process (example_env (Inr (example_token (JString ''expired-jwt''))) (Inl (External ''oidc: token is expired'')))
        example_extractor example_ctx example_cfg ''auth-code-1'' [])
      = (None, Some (Wrap (External ''oidc: token is expired'') ''cannot verify ID token''))"
  using Process_verification_failure
    [of "example_env (Inr (example_token (JString ''expired-jwt''))) (Inl (External ''oidc: token is expired''))"
        example_cfg example_ctx example_extractor "''auth-code-1''"
        "example_token (JString ''expired-jwt'')" "''expired-jwt''" "External ''oidc: token is expired''" "[]"]
  by (simp add: ex_defs)

text \<open>
  Claim C8. When the exchange and the verification succeed but the claims of the
  verified token cannot be decoded into the record, \<open>Process\<close> returns a nil result
  and the decoding error wrapped with the claims-extraction description.
\<close>

theorem Process_claims_failure:
  assumes "Exchange env cfg (ClientContext ctx (oe_h oe)) code = Inr token"
    and "tok_Extra token tokenFieldIDToken = JString raw"
    and "Verify env (oe_v oe) ctx raw = Inr idt"
    and "snd (Claims (equalFold env) idt p) = Some err"
  shows "fst (Process env oe ctx cfg code log) =
           (None, Some (Wrap err ''cannot extract claims from ID token''))"
proof -
  let ?p0 = "\<lparr>Username = [], ClientID = cfg_ClientID cfg, ClientSecret = cfg_ClientSecret cfg,
             IDToken = raw, RefreshToken = tok_RefreshToken token, IssuerURL = Issuer idt\<rparr>"
  from assms(4) have "snd (Claims (equalFold env) idt ?p0) = Some err"
    by (simp add: Claims_error_indep [of _ _ ?p0 p])
  then obtain p' where "Claims (equalFold env) idt ?p0 = (p', Some err)"
    by (cases "Claims (equalFold env) idt ?p0") simp
  with assms(1-3) show ?thesis
    by (simp add: Process_verified)
qed

theorem Process_claims_failure_witness:
  "Exchange (example_env (Inr (example_token (JString ''jwt'')))
                      (Inr (example_idtoken [(''email'', JNumber ''42'')])))
      example_cfg (ClientContext example_ctx (oe_h example_extractor)) ''auth-code-1''
      = Inr (example_token (JString ''jwt''))
   \<and> tok_Extra (example_token (JString ''jwt'')) tokenFieldIDToken = JString ''jwt''
   \<and> Verify (example_env (Inr (example_token (JString ''jwt'')))
                      (Inr (example_idtoken [(''email'', JNumber ''42'')])))
        (oe_v example_extractor) example_ctx ''jwt''
      = Inr (example_idtoken [(''email'', JNumber ''42'')])
   \<and> snd (Claims asciiEqualFold (example_idtoken [(''email'', JNumber ''42'')])
        \<lparr>Username = [], ClientID = [], ClientSecret = [], IDToken = [], RefreshToken = [],
         IssuerURL = []\<rparr>)
     = Some (UnmarshalTypeError ''number'' ''email'')
   \<and> fst (Process (example_env (Inr (example_token (JString ''jwt'')))
                      (Inr (example_idtoken [(''email'', JNumber ''42'')])))
        example_extractor example_ctx example_cfg ''auth-code-1'' [])
      = (None, Some (Wrap (UnmarshalTypeError ''number'' ''email'')
                      ''cannot extract claims from ID token''))"
  using Process_claims_failure
    [of "example_env (Inr (example_token (JString ''jwt'')))
                      (Inr (example_idtoken [(''email'', JNumber ''42'')]))"
        example_cfg example_ctx example_extractor "''auth-code-1''"
        "example_token (JString ''jwt'')" "''jwt''" "example_idtoken [(''email'', JNumber ''42'')]"
        "\<lparr>Username = [], ClientID = [], ClientSecret = [], IDToken = [], RefreshToken = [],
         IssuerURL = []\<rparr>" "UnmarshalTypeError ''number'' ''email''" "[]"]
  by (simp add: ex_defs dec_defs)

subsection \<open>Success\<close>

text \<open>
  Claim C1, as the specification states it, fails: a claim of the verified token named
  like a field of the record is decoded over the value stored before. Here the token
  carries a claim \<^verbatim>\<open>clientID\<close>, and the result's \<open>ClientID\<close> is that claim, not the
  \<open>ClientID\<close> of the configuration.
\<close>

theorem Process_echo_counterexample:
  "fst (Process
         (example_env (Inr (example_token (JString ''jwt'')))
            (Inr (example_idtoken [(''iss'', JString ''https://issuer.example''),
                                   (''clientID'', JString ''other'')])))
         example_extractor example_ctx example_cfg ''auth-code-1'' [])
     = (Some \<lparr>Username = [], ClientID = ''other'', ClientSecret = ''xyz'', IDToken = ''jwt'',
               RefreshToken = ''r1'', IssuerURL = ''https://issuer.example''\<rparr>, None)
   \<and> cfg_ClientID example_cfg \<noteq> ''other''"
  by (simp add: Process_def ex_defs dec_defs)

text \<open>
  Claim C1, amended. When the exchange returns a string \<^verbatim>\<open>id_token\<close> that passes
  verification and whose claims decode, \<open>Process\<close> returns a result and no error, and
  each of \<open>ClientID\<close>, \<open>ClientSecret\<close>, \<open>IDToken\<close>, \<open>RefreshToken\<close> and \<open>IssuerURL\<close>
  holds the configuration's client id and secret, the raw \<^verbatim>\<open>id_token\<close>, the refresh
  token of the exchange and the issuer of the verified token, provided the token has no
  claim whose name selects that field (\<^verbatim>\<open>clientID\<close>, \<^verbatim>\<open>clientSecret\<close>, \<^verbatim>\<open>idToken\<close>,
  \<^verbatim>\<open>refreshToken\<close>, \<^verbatim>\<open>issuer\<close>, exactly or up to case).
\<close>

theorem Process_success_echo:
  assumes "Exchange env cfg (ClientContext ctx (oe_h oe)) code = Inr token"
    and "tok_Extra token tokenFieldIDToken = JString raw"
    and "Verify env (oe_v oe) ctx raw = Inr idt"
    and "snd (Claims (equalFold env) idt p) = None"
  shows "\<exists>params. fst (Process env oe ctx cfg code log) = (Some params, None)
    \<and> (\<not> has_claim (equalFold env) FClientID idt \<longrightarrow> ClientID params = cfg_ClientID cfg)
    \<and> (\<not> has_claim (equalFold env) FClientSecret idt \<longrightarrow>
          ClientSecret params = cfg_ClientSecret cfg)
    \<and> (\<not> has_claim (equalFold env) FIDToken idt \<longrightarrow> IDToken params = raw)
    \<and> (\<not> has_claim (equalFold env) FRefreshToken idt \<longrightarrow>
          RefreshToken params = tok_RefreshToken token)
    \<and> (\<not> has_claim (equalFold env) FIssuerURL idt \<longrightarrow> IssuerURL params = Issuer idt)"
proof -
  let ?p0 = "\<lparr>Username = [], ClientID = cfg_ClientID cfg, ClientSecret = cfg_ClientSecret cfg,
             IDToken = raw, RefreshToken = tok_RefreshToken token, IssuerURL = Issuer idt\<rparr>"
  let ?r = "fst (Claims (equalFold env) idt ?p0)"
  have ok: "fst (Process env oe ctx cfg code log) = (Some ?r, None)"
    using assms by (rule Process_success)
  have keep: "\<not> has_claim (equalFold env) f idt \<Longrightarrow> get_field f ?r = get_field f ?p0" for f
    by (rule Claims_keeps)
  from keep [of FClientID] keep [of FClientSecret] keep [of FIDToken] keep [of FRefreshToken]
    keep [of FIssuerURL] ok
  show ?thesis by simp
qed

theorem Process_success_echo_witness:
  "Exchange (example_env (Inr (example_token (JString ''jwt'')))
       (Inr (example_idtoken [(''iss'', JString ''https://issuer.example''),
                              (''email'', JString ''user@example.com'')])))
     example_cfg (ClientContext example_ctx (oe_h example_extractor)) ''auth-code-1''
     = Inr (example_token (JString ''jwt''))
   \<and> tok_Extra (example_token (JString ''jwt'')) tokenFieldIDToken = JString ''jwt''
   \<and> \<not> has_claim asciiEqualFold FClientID
         (example_idtoken [(''iss'', JString ''https://issuer.example''),
                           (''email'', JString ''user@example.com'')])
   \<and> \<not> has_claim asciiEqualFold FIssuerURL
         (example_idtoken [(''iss'', JString ''https://issuer.example''),
                           (''email'', JString ''user@example.com'')])
   \<and> fst (Process
         (example_env (Inr (example_token (JString ''jwt'')))
            (Inr (example_idtoken [(''iss'', JString ''https://issuer.example''),
                                   (''email'', JString ''user@example.com'')])))
         example_extractor example_ctx example_cfg ''auth-code-1'' [])
     = (Some \<lparr>Username = ''user@example.com'', ClientID = ''abc'', ClientSecret = ''xyz'',
               IDToken = ''jwt'', RefreshToken = ''r1'',
               IssuerURL = ''https://issuer.example''\<rparr>, None)"
  using Process_success_echo
    [of "example_env (Inr (example_token (JString ''jwt'')))
            (Inr (example_idtoken [(''iss'', JString ''https://issuer.example''),
                                   (''email'', JString ''user@example.com'')]))"
        example_cfg example_ctx example_extractor "''auth-code-1''"
        "example_token (JString ''jwt'')" "''jwt''"
        "example_idtoken [(''iss'', JString ''https://issuer.example''),
                                   (''email'', JString ''user@example.com'')]"
        "\<lparr>Username = [], ClientID = [], ClientSecret = [], IDToken = [], RefreshToken = [],
         IssuerURL = []\<rparr>" "[]"]
  by (simp add: Process_def ex_defs dec_defs has_claim_def claim_members_def)

text \<open>
  Claim C5, as the specification states it, fails: the fields stored before decoding
  do not take priority. Here the token carries the claims \<^verbatim>\<open>refreshToken\<close> and
  \<^verbatim>\<open>ISSUER\<close>, and both replace what the exchange and the verifier gave.
\<close>

theorem Process_decode_priority_counterexample:
  "fst (Process
         (example_env (Inr (example_token (JString ''jwt'')))
            (Inr (example_idtoken [(''email'', JString ''user@example.com''),
                                   (''refreshToken'', JString ''r2''),
                                   (''ISSUER'', JString ''https://other.example'')])))
         example_extractor example_ctx example_cfg ''auth-code-1'' [])
     = (Some \<lparr>Username = ''user@example.com'', ClientID = ''abc'', ClientSecret = ''xyz'',
               IDToken = ''jwt'', RefreshToken = ''r2'',
               IssuerURL = ''https://other.example''\<rparr>, None)
   \<and> tok_RefreshToken (example_token (JString ''jwt'')) = ''r1''
   \<and> Issuer (example_idtoken [(''email'', JString ''user@example.com''),
                                   (''refreshToken'', JString ''r2''),
                                   (''ISSUER'', JString ''https://other.example'')])
      = ''https://issuer.example''"
  by (simp add: Process_def ex_defs dec_defs)

text \<open>
  Claim C5, amended. After a successful \<open>Process\<close>, every field of the record holds
  the string of the last claim of the token whose name selects the field; only a field
  that no string claim selects keeps the value stored before decoding (the empty
  string for \<open>Username\<close>).
\<close>

theorem Process_decode_overwrites:
  assumes "Exchange env cfg (ClientContext ctx (oe_h oe)) code = Inr token"
    and "tok_Extra token tokenFieldIDToken = JString raw"
    and "Verify env (oe_v oe) ctx raw = Inr idt"
    and "fst (Process env oe ctx cfg code log) = (Some params, None)"
  shows "get_field f params =
    (if claim_strings (equalFold env) f idt = []
     then get_field f \<lparr>Username = [], ClientID = cfg_ClientID cfg,
            ClientSecret = cfg_ClientSecret cfg, IDToken = raw,
            RefreshToken = tok_RefreshToken token, IssuerURL = Issuer idt\<rparr>
     else last (claim_strings (equalFold env) f idt))"
proof -
  let ?p0 = "\<lparr>Username = [], ClientID = cfg_ClientID cfg, ClientSecret = cfg_ClientSecret cfg,
             IDToken = raw, RefreshToken = tok_RefreshToken token, IssuerURL = Issuer idt\<rparr>"
  obtain p' e where c: "Claims (equalFold env) idt ?p0 = (p', e)"
    by (cases "Claims (equalFold env) idt ?p0")
  with assms have "e = None" and "p' = params"
    by (auto simp: Process_verified split: option.splits)
  with c have "params = fst (Claims (equalFold env) idt ?p0)" by simp
  then show ?thesis by (simp only: Claims_field)
qed

theorem Process_decode_overwrites_witness:
  "Exchange (example_env (Inr (example_token (JString ''jwt'')))
       (Inr (example_idtoken [(''email'', JString ''user@example.com''),
                              (''refreshToken'', JString ''r2'')])))
     example_cfg (ClientContext example_ctx (oe_h example_extractor)) ''auth-code-1''
     = Inr (example_token (JString ''jwt''))
   \<and> tok_Extra (example_token (JString ''jwt'')) tokenFieldIDToken = JString ''jwt''
   \<and> fst (Process
         (example_env (Inr (example_token (JString ''jwt'')))
            (Inr (example_idtoken [(''email'', JString ''user@example.com''),
                                   (''refreshToken'', JString ''r2'')])))
         example_extractor example_ctx example_cfg ''auth-code-1'' [])
     = (Some \<lparr>Username = ''user@example.com'', ClientID = ''abc'', ClientSecret = ''xyz'',
               IDToken = ''jwt'', RefreshToken = ''r2'',
               IssuerURL = ''https://issuer.example''\<rparr>, None)
   \<and> claim_strings asciiEqualFold FRefreshToken
        (example_idtoken [(''email'', JString ''user@example.com''),
                          (''refreshToken'', JString ''r2'')]) = [''r2'']
   \<and> get_field FRefreshToken
        \<lparr>Username = ''user@example.com'', ClientID = ''abc'', ClientSecret = ''xyz'',
         IDToken = ''jwt'', RefreshToken = ''r2'', IssuerURL = ''https://issuer.example''\<rparr>
     = last [''r2'']"
  using Process_decode_overwrites
    [of "example_env (Inr (example_token (JString ''jwt'')))
            (Inr (example_idtoken [(''email'', JString ''user@example.com''),
                                   (''refreshToken'', JString ''r2'')]))"
        example_cfg example_ctx example_extractor "''auth-code-1''"
        "example_token (JString ''jwt'')" "''jwt''"
        "example_idtoken [(''email'', JString ''user@example.com''),
                                   (''refreshToken'', JString ''r2'')]"
        "[]"
        "\<lparr>Username = ''user@example.com'', ClientID = ''abc'', ClientSecret = ''xyz'',
         IDToken = ''jwt'', RefreshToken = ''r2'', IssuerURL = ''https://issuer.example''\<rparr>"
        FRefreshToken]
  by (simp add: Process_def ex_defs dec_defs claim_strings_def claim_members_def)



subsection \<open>The context of the two calls\<close>


subsection \<open>Construction\<close>

text \<open>
  Claim C10. \<open>NewOIDC\<close> with options built from \<open>HTTPClient\<close> alone makes no network
  call (the log is returned as it was), and returns an extractor and no error; the
  extractor holds the verifier given and the client of the last option, or the
  default client without options. For any options, an error of \<open>NewOIDC\<close> comes with
  a nil extractor and is the error that one of the options returned, wrapped with the
  option-application description.
\<close>

theorem NewOIDC_construction:
  "NewOIDC vf (map HTTPClient hs) log =
     ((Some \<lparr>oe_v = vf, oe_h = (if hs = [] then DefaultClient else last hs)\<rparr>, None), log)
   \<and> (\<forall>err. snd (fst (NewOIDC vf oo log)) = Some err \<longrightarrow>
         fst (fst (NewOIDC vf oo log)) = None \<and>
         (\<exists>opt \<in> set oo. \<exists>oe' log' e. snd (opt oe' log') = Some e \<and>
            err = Wrap e ''cannot apply OIDC option''))"
  by (auto simp: NewOIDC_def apply_options_HTTPClient dest: apply_options_error)

theorem NewOIDC_construction_witness:
  "NewOIDC (Verifier 1) (map HTTPClient [Client 1, Client 2]) [] =
     ((Some \<lparr>oe_v = Verifier 1, oe_h = Client 2\<rparr>, None), [])
   \<and> NewOIDC (Verifier 1) [] [] = ((Some \<lparr>oe_v = Verifier 1, oe_h = DefaultClient\<rparr>, None), [])
   \<and> snd (fst (NewOIDC (Verifier 1) [HTTPClient (Client 1), failing_option] [])) =
       Some (Wrap (External ''unsupported'') ''cannot apply OIDC option'')
   \<and> fst (fst (NewOIDC (Verifier 1) [HTTPClient (Client 1), failing_option] [])) = None"
  using NewOIDC_construction
    [of "Verifier 1" "[Client 1, Client 2]" "[]" "[HTTPClient (Client 1), failing_option]"]
  by (simp add: NewOIDC_def HTTPClient_def failing_option_def)

end
